theory Spec2Isabelle
  imports Main "HOL-Library.Word" "HOL-Library.Multiset"
begin

unbundle bit_operations_syntax

section \<open>Exceptions for Broadlink devices: the data model\<close>

text \<open>
  The module \<^verbatim>\<open>broadlink/exceptions.py\<close> declares a base class
  \<^verbatim>\<open>BroadlinkException\<close>, the aggregate \<^verbatim>\<open>MultipleErrors\<close> and fourteen
  subclasses with an empty body. \<open>kind\<close> is \<^verbatim>\<open>type(self)\<close>, one constructor
  per class, named as in the source.
\<close>

datatype kind =
    BroadlinkException
  | MultipleErrors
  | AuthenticationError
  | AuthorizationError
  | CommandNotSupportedError
  | ConnectionClosedError
  | StructureAbnormalError
  | DeviceOfflineError
  | ReadError
  | SendError
  | SSIDNotFoundError
  | StorageError
  | WriteError
  | NetworkTimeoutError
  | DataValidationError
  | UnknownError

text \<open>
  The positional arguments an exception is built from. The module passes integers
  (error codes) and strings (messages); \<^verbatim>\<open>None\<close> is what \<^verbatim>\<open>errno\<close> holds
  when there is no code. A \<open>string\<close> stands for a Python \<^verbatim>\<open>str\<close> whose code
  points are below 256, one \<open>char\<close> per code point.
\<close>

datatype pyval = PNone | PInt int | PStr string

text \<open>
  An exception object: its class, the tuple \<^verbatim>\<open>self.args\<close> kept by
  \<^verbatim>\<open>BaseException\<close>, and the attributes set by \<^verbatim>\<open>__init__\<close>.
  \<open>errors\<close> is the attribute of \<^verbatim>\<open>MultipleErrors\<close>; the other classes have
  no such attribute and the module never reads it on them, the model keeps \<open>[]\<close> there.
\<close>

datatype exc =
  Exc (etype: kind) (args: "pyval list") (errno: pyval) (strerror: string) (errors: "exc list")

section \<open>Python's built-in conversions\<close>

text \<open>\<^verbatim>\<open>str(n)\<close> for an integer: the decimal digits, with a minus sign below zero.\<close>

definition digit_char :: "nat \<Rightarrow> char" where
  "digit_char d = ''0123456789'' ! d"

function str_nat :: "nat \<Rightarrow> string" where
  "str_nat n = (if n < 10 then [digit_char n] else str_nat (n div 10) @ [digit_char (n mod 10)])"
  by pat_completeness auto
termination
  by (relation "measure (\<lambda>n. n)") auto

declare str_nat.simps [simp del]

definition str_int :: "int \<Rightarrow> string" where
  "str_int i = (if i < 0 then CHR ''-'' # str_nat (nat (- i)) else str_nat (nat i))"

text \<open>\<^verbatim>\<open>sep.join(xs)\<close>.\<close>

fun join :: "string \<Rightarrow> string list \<Rightarrow> string" where
  "join sep [] = []"
| "join sep [x] = x"
| "join sep (x # y # ys) = x @ sep @ join sep (y # ys)"

text \<open>\<^verbatim>\<open>str(v)\<close>, also what \<^verbatim>\<open>%s\<close> formats.\<close>

fun py_str :: "pyval \<Rightarrow> string" where
  "py_str PNone = ''None''"
| "py_str (PInt i) = str_int i"
| "py_str (PStr s) = s"

section \<open>BroadlinkException\<close>

text \<open>
  \<^verbatim>\<open>
  def __init__(self, *args, **kwargs):
      super().__init__(*args, **kwargs)
      if len(args) >= 2:
          self.errno = args[0]
          self.strerror = ": ".join(str(arg) for arg in args[1:])
      elif len(args) == 1:
          self.errno = None
          self.strerror = str(args[0])
      else:
          self.errno = None
          self.strerror = ""
  \<close>
  \<^verbatim>\<open>Exception.__init__\<close> stores the positional arguments as \<^verbatim>\<open>self.args\<close>
  and rejects keyword arguments with a \<^verbatim>\<open>TypeError\<close>, so the model is of the calls
  without keyword arguments. \<open>cls\<close> is the class of the object being initialised.
\<close>

definition BroadlinkException_init :: "kind \<Rightarrow> pyval list \<Rightarrow> exc" where
  "BroadlinkException_init cls as =
     (if length as \<ge> 2 then Exc cls as (hd as) (join '': '' (map py_str (tl as))) []
      else if length as = 1 then Exc cls as PNone (py_str (hd as)) []
      else Exc cls as PNone '''' [])"

section \<open>The code table and the factory\<close>

text \<open>
  \<^verbatim>\<open>BROADLINK_EXCEPTIONS\<close>, the dictionary literal of the source, entry by entry
  (a later entry of a literal would replace an earlier one with the same key).
\<close>

definition BROADLINK_EXCEPTIONS :: "int \<rightharpoonup> kind \<times> string" where
  "BROADLINK_EXCEPTIONS =
     [ -1 \<mapsto> (AuthenticationError, ''Authentication failed''),
       -2 \<mapsto> (ConnectionClosedError, ''You have been logged out''),
       -3 \<mapsto> (DeviceOfflineError, ''The device is offline''),
       -4 \<mapsto> (CommandNotSupportedError, ''Command not supported''),
       -5 \<mapsto> (StorageError, ''The device storage is full''),
       -6 \<mapsto> (StructureAbnormalError, ''Structure is abnormal''),
       -7 \<mapsto> (AuthorizationError, ''Control key is expired''),
       -8 \<mapsto> (SendError, ''Send error''),
       -9 \<mapsto> (WriteError, ''Write error''),
       -10 \<mapsto> (ReadError, ''Read error''),
       -11 \<mapsto> (SSIDNotFoundError, ''SSID could not be found in AP configuration''),
       -2040 \<mapsto> (DataValidationError, ''Device information is not intact''),
       -4000 \<mapsto> (NetworkTimeoutError, ''Network timeout''),
       -4007 \<mapsto> (DataValidationError, ''Received data packet length error''),
       -4008 \<mapsto> (DataValidationError, ''Received data packet check error''),
       -4009 \<mapsto> (DataValidationError, ''Received data packet information type error''),
       -4010 \<mapsto> (DataValidationError, ''Received encrypted data packet length error''),
       -4011 \<mapsto> (DataValidationError, ''Received encrypted data packet check error''),
       -4012 \<mapsto> (AuthorizationError, ''Device control ID error'') ]"

text \<open>
  \<^verbatim>\<open>
  def exception(err_code: int) -> BroadlinkException:
      try:
          exc, msg = BROADLINK_EXCEPTIONS[err_code]
          return exc(err_code, msg)
      except KeyError:
          return UnknownError(err_code, "Unknown error")
  \<close>
  The subscript raises \<^verbatim>\<open>KeyError\<close> exactly when the key is missing, which is
  the \<open>None\<close> branch.
\<close>

definition exception :: "int \<Rightarrow> exc" where
  "exception err_code =
     (case BROADLINK_EXCEPTIONS err_code of
        Some (exc, msg) \<Rightarrow> BroadlinkException_init exc [PInt err_code, PStr msg]
      | None \<Rightarrow> BroadlinkException_init UnknownError [PInt err_code, PStr ''Unknown error''])"

text \<open>
  \<^verbatim>\<open>
  def __str__(self):
      if self.errno is not None:
          return "[Errno %s] %s" % (self.errno, self.strerror)
      return self.strerror
  \<close>
  \<^verbatim>\<open>MultipleErrors\<close> overrides the method and returns \<^verbatim>\<open>self.strerror\<close>;
  every other class inherits it.
\<close>

definition exc_str :: "exc \<Rightarrow> string" where
  "exc_str e =
     (if etype e = MultipleErrors then strerror e
      else if errno e \<noteq> PNone then ''[Errno '' @ py_str (errno e) @ ''] '' @ strerror e
      else strerror e)"

text \<open>
  \<^verbatim>\<open>
  def __eq__(self, other):
      return type(self) == type(other) and self.args == other.args
  def __hash__(self):
      return hash((type(self), self.args))
  \<close>
  Two tuples of \<open>pyval\<close> are \<^verbatim>\<open>==\<close> exactly when they are the same list.
  The built-in \<^verbatim>\<open>hash\<close> of a pair of a class and a tuple is a parameter \<open>H\<close>.
\<close>

definition exc_eq :: "exc \<Rightarrow> exc \<Rightarrow> bool" where
  "exc_eq self other = (etype self = etype other \<and> args self = args other)"

definition exc_hash :: "(kind \<times> pyval list \<Rightarrow> int) \<Rightarrow> exc \<Rightarrow> int" where
  "exc_hash H self = H (etype self, args self)"

section \<open>repr\<close>

text \<open>
  \<^verbatim>\<open>repr(s)\<close> of a string, as CPython writes it: single quotes, unless the string
  holds a single quote and no double quote; the quote and the backslash escaped;
  tab, newline and carriage return as \<^verbatim>\<open>\t \n \r\<close>; the other characters that are
  not printable as \<^verbatim>\<open>\xhh\<close>. Between 128 and 255 the printable code points are
  those from 161 on, 173 apart.
\<close>

definition hex_digit :: "nat \<Rightarrow> char" where
  "hex_digit d = ''0123456789abcdef'' ! d"

definition hex_escape :: "nat \<Rightarrow> string" where
  "hex_escape n = [CHR 0x5C, CHR ''x'', hex_digit (n div 16 mod 16), hex_digit (n mod 16)]"

definition repr_char :: "char \<Rightarrow> char \<Rightarrow> string" where
  "repr_char quote ch =
     (let n = (of_char ch :: nat) in
      if ch = quote \<or> ch = CHR 0x5C then [CHR 0x5C, ch]
      else if ch = CHR 0x09 then [CHR 0x5C, CHR ''t'']
      else if ch = CHR 0x0A then [CHR 0x5C, CHR ''n'']
      else if ch = CHR 0x0D then [CHR 0x5C, CHR ''r'']
      else if n < 32 \<or> n = 127 then hex_escape n
      else if n < 127 then [ch]
      else if n < 161 \<or> n = 173 then hex_escape n
      else [ch])"

definition str_repr :: "string \<Rightarrow> string" where
  "str_repr s =
     (let quote = (if CHR 0x27 \<in> set s \<and> CHR 0x22 \<notin> set s then CHR 0x22 else CHR 0x27)
      in quote # concat (map (repr_char quote) s) @ [quote])"

fun py_repr :: "pyval \<Rightarrow> string" where
  "py_repr PNone = ''None''"
| "py_repr (PInt i) = str_int i"
| "py_repr (PStr s) = str_repr s"

text \<open>\<^verbatim>\<open>type(self).__name__\<close>.\<close>

fun kind_name :: "kind \<Rightarrow> string" where
  "kind_name BroadlinkException = ''BroadlinkException''"
| "kind_name MultipleErrors = ''MultipleErrors''"
| "kind_name AuthenticationError = ''AuthenticationError''"
| "kind_name AuthorizationError = ''AuthorizationError''"
| "kind_name CommandNotSupportedError = ''CommandNotSupportedError''"
| "kind_name ConnectionClosedError = ''ConnectionClosedError''"
| "kind_name StructureAbnormalError = ''StructureAbnormalError''"
| "kind_name DeviceOfflineError = ''DeviceOfflineError''"
| "kind_name ReadError = ''ReadError''"
| "kind_name SendError = ''SendError''"
| "kind_name SSIDNotFoundError = ''SSIDNotFoundError''"
| "kind_name StorageError = ''StorageError''"
| "kind_name WriteError = ''WriteError''"
| "kind_name NetworkTimeoutError = ''NetworkTimeoutError''"
| "kind_name DataValidationError = ''DataValidationError''"
| "kind_name UnknownError = ''UnknownError''"

text \<open>
  \<^verbatim>\<open>repr(e)\<close>. \<^verbatim>\<open>MultipleErrors\<close> defines
  \<^verbatim>\<open>
  def __repr__(self):
      return "MultipleErrors(%r)" % self.errors
  \<close>
  where \<^verbatim>\<open>self.errors\<close> is a list, written \<^verbatim>\<open>[r1, r2, ...]\<close>. The other
  classes inherit \<^verbatim>\<open>BaseException.__repr__\<close>: the class name, then the reprs of
  \<^verbatim>\<open>self.args\<close> between parentheses, separated by a comma and a space (CPython 3.7
  and later; before, a single argument was followed by a comma).
\<close>

fun exc_repr :: "exc \<Rightarrow> string" where
  "exc_repr (Exc cls as en se es) =
     (if cls = MultipleErrors
      then ''MultipleErrors('' @ ''['' @ join '', '' (map exc_repr es) @ '']'' @ '')''
      else kind_name cls @ ''('' @ join '', '' (map py_repr as) @ '')'')"

section \<open>MultipleErrors\<close>

text \<open>
  \<^verbatim>\<open>collections.Counter(errors)\<close>: a dictionary that keeps its keys in the order
  of their first insertion. An element that is \<^verbatim>\<open>==\<close> to a key already there
  (and has its hash, which \<open>exc_eq\<close> implies) adds one to that key's count and the
  key object stays the first one.
\<close>

type_synonym counter = "(exc \<times> nat) list"

fun counter_add :: "counter \<Rightarrow> exc \<Rightarrow> counter" where
  "counter_add [] e = [(e, 1)]"
| "counter_add ((k, n) # kvs) e =
     (if exc_eq k e then (k, n + 1) # kvs else (k, n) # counter_add kvs e)"

definition Counter :: "exc list \<Rightarrow> counter" where
  "Counter es = foldl counter_add [] es"

text \<open>
  \<^verbatim>\<open>Counter.most_common()\<close> is
  \<^verbatim>\<open>sorted(self.items(), key=itemgetter(1), reverse=True)\<close>: a stable sort by
  falling count (\<^verbatim>\<open>reverse=True\<close> keeps the order of equal counts).
  \<^verbatim>\<open>repr(counter)\<close> is \<^verbatim>\<open>Counter()\<close> when empty and otherwise
  \<^verbatim>\<open>Counter({k1: n1, k2: n2})\<close> in the order of \<^verbatim>\<open>most_common()\<close>.
\<close>

definition most_common :: "counter \<Rightarrow> counter" where
  "most_common c = sort_key (\<lambda>(k, n). - int n) c"

definition counter_repr :: "counter \<Rightarrow> string" where
  "counter_repr c =
     (if c = [] then ''Counter()''
      else ''Counter({''
           @ join '', '' (map (\<lambda>(k, n). exc_repr k @ '': '' @ str_nat n) (most_common c))
           @ ''})'')"

text \<open>
  \<^verbatim>\<open>
  def __init__(self, *args, **kwargs):
      errors = args[0][:] if args else []
      counter = collections.Counter(errors)
      strerror = "Multiple errors occurred: %s" % counter
      super().__init__(strerror, **kwargs)
      self.errors = errors
  \<close>
  The positional arguments are lists of exceptions; only the first is read.
  \<^verbatim>\<open>%s\<close> of a \<^verbatim>\<open>Counter\<close> is its repr.
\<close>

definition MultipleErrors_init :: "exc list list \<Rightarrow> exc" where
  "MultipleErrors_init as =
     (let errors = (if as \<noteq> [] then hd as else []);
          counter = Counter errors;
          strerror = ''Multiple errors occurred: '' @ counter_repr counter
      in case BroadlinkException_init MultipleErrors [PStr strerror] of
           Exc cls a en se _ \<Rightarrow> Exc cls a en se errors)"

section \<open>check_error\<close>

text \<open>
  \<^verbatim>\<open>struct.unpack("h", error)\<close>: the format has no byte-order character, so the two
  bytes are read in the byte order of the machine the interpreter runs on
  (\<^verbatim>\<open>sys.byteorder\<close>), as a signed 16-bit integer. A buffer of any other size raises
  \<^verbatim>\<open>struct.error\<close>.
\<close>

datatype byteorder = LittleEndian | BigEndian

datatype raised = StructError | Raised exc

definition signed16 :: "8 word \<Rightarrow> 8 word \<Rightarrow> int" where
  "signed16 hi lo =
     (let u = 256 * uint hi + uint lo in if u < 32768 then u else u - 65536)"

definition struct_unpack_h :: "byteorder \<Rightarrow> 8 word list \<Rightarrow> raised + int" where
  "struct_unpack_h order buf =
     (case buf of
        [b0, b1] \<Rightarrow>
          Inr (case order of LittleEndian \<Rightarrow> signed16 b1 b0 | BigEndian \<Rightarrow> signed16 b0 b1)
      | _ \<Rightarrow> Inl StructError)"

text \<open>
  \<^verbatim>\<open>
  def check_error(error: bytes) -> None:
      error_code = struct.unpack("h", error)[0]
      if error_code:
          raise exception(error_code)
  \<close>
  \<open>Inr ()\<close> is the return of \<^verbatim>\<open>None\<close>, \<open>Inl\<close> what is raised.
\<close>

definition check_error :: "byteorder \<Rightarrow> 8 word list \<Rightarrow> raised + unit" where
  "check_error order error =
     (case struct_unpack_h order error of
        Inl e \<Rightarrow> Inl e
      | Inr error_code \<Rightarrow>
          if error_code \<noteq> 0 then Inl (Raised (exception error_code)) else Inr ())"

section \<open>The code table as the specification lists it\<close>

text \<open>
  The table of the specification's section on external interfaces, row by row: code,
  kind, message. It is compared below with \<open>BROADLINK_EXCEPTIONS\<close>, which is the
  table of the source.
\<close>

definition spec_code_table :: "(int \<times> kind \<times> string) list" where
  "spec_code_table =
     [ (-1, AuthenticationError, ''Authentication failed''),
       (-2, ConnectionClosedError, ''You have been logged out''),
       (-3, DeviceOfflineError, ''The device is offline''),
       (-4, CommandNotSupportedError, ''Command not supported''),
       (-5, StorageError, ''The device storage is full''),
       (-6, StructureAbnormalError, ''Structure is abnormal''),
       (-7, AuthorizationError, ''Control key is expired''),
       (-8, SendError, ''Send error''),
       (-9, WriteError, ''Write error''),
       (-10, ReadError, ''Read error''),
       (-11, SSIDNotFoundError, ''SSID could not be found in AP configuration''),
       (-2040, DataValidationError, ''Device information is not intact''),
       (-4000, NetworkTimeoutError, ''Network timeout''),
       (-4007, DataValidationError, ''Received data packet length error''),
       (-4008, DataValidationError, ''Received data packet check error''),
       (-4009, DataValidationError, ''Received data packet information type error''),
       (-4010, DataValidationError, ''Received encrypted data packet length error''),
       (-4011, DataValidationError, ''Received encrypted data packet check error''),
       (-4012, AuthorizationError, ''Device control ID error'') ]"

section \<open>Auxiliary facts\<close>

subsection \<open>What the constructors store\<close>

lemma BroadlinkException_init_two:
  "BroadlinkException_init cls [PInt c, PStr m] = Exc cls [PInt c, PStr m] (PInt c) m []"
  by (simp add: BroadlinkException_init_def)

lemma BroadlinkException_init_etype: "etype (BroadlinkException_init cls as) = cls"
  by (simp add: BroadlinkException_init_def)

lemma BroadlinkException_init_args: "args (BroadlinkException_init cls as) = as"
  by (simp add: BroadlinkException_init_def)

lemma MultipleErrors_init_attrs:
  "MultipleErrors_init as =
     Exc MultipleErrors
       [PStr (''Multiple errors occurred: '' @ counter_repr (Counter (if as \<noteq> [] then hd as else [])))]
       PNone
       (''Multiple errors occurred: '' @ counter_repr (Counter (if as \<noteq> [] then hd as else [])))
       (if as \<noteq> [] then hd as else [])"
  by (simp add: MultipleErrors_init_def BroadlinkException_init_def Let_def)

lemma exc_eq_refl: "exc_eq a a"
  by (simp add: exc_eq_def)

lemma MultipleErrors_eq_iff:
  "exc_eq (MultipleErrors_init as) (MultipleErrors_init bs) =
     (strerror (MultipleErrors_init as) = strerror (MultipleErrors_init bs))"
  by (simp add: MultipleErrors_init_attrs exc_eq_def)

subsection \<open>Two bytes as a signed 16-bit integer\<close>

lemma uint8_bounds: "0 \<le> uint (b :: 8 word) \<and> uint b < 256"
  using uint_lt2p [of b] by simp

lemma uint_word_cat16:
  "uint (word_cat (hi :: 8 word) (lo :: 8 word) :: 16 word) = 256 * uint hi + uint lo"
proof -
  have "uint (word_cat hi lo :: 16 word) = take_bit 16 (concat_bit 8 (uint lo) (uint hi))"
    by (simp add: word_cat_eq' uint_word_of_int_eq)
  also have "concat_bit 8 (uint lo) (uint hi) = uint lo + 256 * uint hi"
    using uint8_bounds [of lo] by (simp add: concat_bit_eq take_bit_int_eq_self push_bit_eq_mult)
  also have "take_bit 16 (uint lo + 256 * uint hi) = uint lo + 256 * uint hi"
    using uint8_bounds [of lo] uint8_bounds [of hi] by (simp add: take_bit_int_eq_self)
  finally show ?thesis by simp
qed

lemma sint16: "sint (w :: 16 word) = (if uint w < 32768 then uint w else uint w - 65536)"
proof -
  have b: "0 \<le> uint w" "uint w < 65536"
    using uint_lt2p [of w] by simp_all
  have s: "sint w = (uint w + 32768) mod 65536 - 32768"
    by (simp add: sint_uint signed_take_bit_eq_take_bit_shift take_bit_eq_mod)
  show ?thesis
  proof (cases "uint w < 32768")
    case True
    with b have "(uint w + 32768) mod 65536 = uint w + 32768"
      by (simp add: mod_pos_pos_trivial)
    with True s show ?thesis by simp
  next
    case False
    have e: "uint w + 32768 = (uint w - 32768) + 65536"
      by simp
    have "(uint w + 32768) mod 65536 = (uint w - 32768) mod 65536"
      unfolding e by (rule mod_add_self2)
    also from False b have "\<dots> = uint w - 32768"
      by (simp add: mod_pos_pos_trivial)
    finally show ?thesis using False s by simp
  qed
qed

lemma signed16_sint: "signed16 hi lo = sint (word_cat hi lo :: 16 word)"
  by (simp add: signed16_def sint16 uint_word_cat16 Let_def)

lemma signed16_range: "- 32768 \<le> signed16 hi lo \<and> signed16 hi lo < 32768"
proof -
  define u where "u = 256 * uint hi + uint lo"
  have "0 \<le> u" "u < 65536"
    using uint8_bounds [of hi] uint8_bounds [of lo] by (simp_all add: u_def)
  moreover have "signed16 hi lo = (if u < 32768 then u else u - 65536)"
    by (simp add: signed16_def u_def Let_def)
  ultimately show ?thesis
    by simp
qed

lemma struct_unpack_h_two:
  "struct_unpack_h order [b0, b1] =
     Inr (case order of LittleEndian \<Rightarrow> signed16 b1 b0 | BigEndian \<Rightarrow> signed16 b0 b1)"
  by (simp add: struct_unpack_h_def)

lemma struct_unpack_h_other: "length buf \<noteq> 2 \<Longrightarrow> struct_unpack_h order buf = Inl StructError"
  by (auto simp: struct_unpack_h_def split: list.splits)

subsection \<open>Counters of two distinct errors\<close>

lemma str_nat_1: "str_nat (Suc 0) = ''1''"
  by (simp add: str_nat.simps digit_char_def)

lemma str_nat_2: "str_nat 2 = ''2''"
  by (simp add: str_nat.simps digit_char_def)

lemma Counter_aab: "\<not> exc_eq a b \<Longrightarrow> Counter [a, a, b] = [(a, 2), (b, 1)]"
  by (simp add: Counter_def exc_eq_refl)

lemma Counter_aba: "\<not> exc_eq a b \<Longrightarrow> Counter [a, b, a] = [(a, 2), (b, 1)]"
  by (simp add: Counter_def exc_eq_refl)

lemma Counter_ab: "\<not> exc_eq a b \<Longrightarrow> Counter [a, b] = [(a, 1), (b, 1)]"
  by (simp add: Counter_def)

lemma counter_repr_aab:
  "counter_repr [(a, 2), (b, Suc 0)] = ''Counter({'' @ exc_repr a @ '': 2, '' @ exc_repr b @ '': 1})''"
  by (simp add: counter_repr_def most_common_def str_nat_1 str_nat_2)

lemma counter_repr_ab:
  "counter_repr [(a, Suc 0), (b, Suc 0)] = ''Counter({'' @ exc_repr a @ '': 1, '' @ exc_repr b @ '': 1})''"
  by (simp add: counter_repr_def most_common_def str_nat_1)

lemma MultipleErrors_aab_aba:
  "\<not> exc_eq a b \<Longrightarrow> exc_eq (MultipleErrors_init [ [a, a, b] ]) (MultipleErrors_init [ [a, b, a] ])"
  by (simp add: MultipleErrors_init_attrs exc_eq_def Counter_aab Counter_aba)

lemma mset_swap2: "mset [a, b] = mset [b, a]"
  by simp

subsection \<open>Two errors of the table\<close>

lemma exception_minus_1:
  "exception (- 1) =
     Exc AuthenticationError [PInt (- 1), PStr ''Authentication failed''] (PInt (- 1))
       ''Authentication failed'' []"
  by (simp add: exception_def BROADLINK_EXCEPTIONS_def BroadlinkException_init_two)

lemma exception_minus_3:
  "exception (- 3) =
     Exc DeviceOfflineError [PInt (- 3), PStr ''The device is offline''] (PInt (- 3))
       ''The device is offline'' []"
  by (simp add: exception_def BROADLINK_EXCEPTIONS_def BroadlinkException_init_two)

lemma exception_minus_1_3_differ:
  "\<not> exc_eq (exception (- 1)) (exception (- 3))" "\<not> exc_eq (exception (- 3)) (exception (- 1))"
  by (simp_all add: exception_minus_1 exception_minus_3 exc_eq_def)

lemma exc_repr_minus_1:
  "exc_repr (exception (- 1)) =
     ''AuthenticationError(-1, '' @ [CHR 0x27] @ ''Authentication failed'' @ [CHR 0x27] @ '')''"
  by code_simp

lemma exc_repr_minus_3:
  "exc_repr (exception (- 3)) =
     ''DeviceOfflineError(-3, '' @ [CHR 0x27] @ ''The device is offline'' @ [CHR 0x27] @ '')''"
  by code_simp

lemma MultipleErrors_ab_ba:
  "\<not> exc_eq (MultipleErrors_init [ [exception (- 1), exception (- 3)] ])
           (MultipleErrors_init [ [exception (- 3), exception (- 1)] ])"
proof -
  have c13: "Counter [exception (- 1), exception (- 3)] = [(exception (- 1), 1), (exception (- 3), 1)]"
    by (rule Counter_ab) (rule exception_minus_1_3_differ(1))
  have c31: "Counter [exception (- 3), exception (- 1)] = [(exception (- 3), 1), (exception (- 1), 1)]"
    by (rule Counter_ab) (rule exception_minus_1_3_differ(2))
  have "counter_repr [(exception (- 1), 1), (exception (- 3), 1)]
      \<noteq> counter_repr [(exception (- 3), 1), (exception (- 1), 1)]"
    by (simp add: counter_repr_ab exception_minus_1 exception_minus_3)
  with c13 c31 show ?thesis
    by (simp add: MultipleErrors_init_attrs exc_eq_def)
qed

section \<open>The factory\<close>

lemma table_row_in_spec:
  "BROADLINK_EXCEPTIONS c = Some (k, m) \<Longrightarrow> (c, k, m) \<in> set spec_code_table"
  unfolding BROADLINK_EXCEPTIONS_def spec_code_table_def by (auto split: if_splits)

lemma spec_row_in_table:
  "(c, k, m) \<in> set spec_code_table \<Longrightarrow> BROADLINK_EXCEPTIONS c = Some (k, m)"
  unfolding BROADLINK_EXCEPTIONS_def spec_code_table_def list.set
  by (elim insertE emptyE) simp_all

lemma spec_code_table_distinct: "distinct (map fst spec_code_table)"
  by (simp add: spec_code_table_def)

lemma spec_code_table_length: "length spec_code_table = 19"
  by (simp add: spec_code_table_def)

text \<open>
  C1. For every code in the table, \<open>exception\<close> returns an error of the class the
  table gives, with that code as \<open>errno\<close> and the table's message as
  \<open>strerror\<close>; and the table of the source holds exactly the rows of the
  specification's table, which are nineteen with pairwise different codes.
\<close>

theorem exception_known_code:
  "(BROADLINK_EXCEPTIONS c = Some (k, m) \<longrightarrow>
      exception c = Exc k [PInt c, PStr m] (PInt c) m [])
   \<and> (BROADLINK_EXCEPTIONS c = Some (k, m)) = ((c, k, m) \<in> set spec_code_table)
   \<and> length spec_code_table = 19 \<and> distinct (map fst spec_code_table)"
proof (intro conjI)
  show "BROADLINK_EXCEPTIONS c = Some (k, m) \<longrightarrow>
      exception c = Exc k [PInt c, PStr m] (PInt c) m []"
    by (simp add: exception_def BroadlinkException_init_two)
  show "(BROADLINK_EXCEPTIONS c = Some (k, m)) = ((c, k, m) \<in> set spec_code_table)"
    using table_row_in_spec spec_row_in_table by blast
qed (rule spec_code_table_length, rule spec_code_table_distinct)

theorem exception_known_code_witness:
  "BROADLINK_EXCEPTIONS (- 7) = Some (AuthorizationError, ''Control key is expired'')
   \<and> exception (- 7) =
       Exc AuthorizationError [PInt (- 7), PStr ''Control key is expired''] (PInt (- 7))
         ''Control key is expired'' []"
  using exception_known_code [of "- 7" AuthorizationError "''Control key is expired''"]
  by (simp add: spec_code_table_def)

text \<open>
  C2. For every code that is not in the table, \<open>exception\<close> returns an
  \<open>UnknownError\<close> with that code and the message \<open>Unknown error\<close>. For every
  integer it returns an error object of one of the plain classes, built from the code and
  a message.
\<close>

theorem exception_unknown_code:
  "(c \<notin> dom BROADLINK_EXCEPTIONS \<longrightarrow>
      exception c = Exc UnknownError [PInt c, PStr ''Unknown error''] (PInt c) ''Unknown error'' [])
   \<and> (\<exists>k m. k \<noteq> MultipleErrors \<and> exception c = Exc k [PInt c, PStr m] (PInt c) m [])"
proof (cases "BROADLINK_EXCEPTIONS c")
  case None
  then show ?thesis
    by (auto simp: exception_def BroadlinkException_init_two)
next
  case (Some km)
  obtain k m where km: "km = (k, m)"
    by (cases km)
  from Some km have "(c, k, m) \<in> set spec_code_table"
    by (simp add: table_row_in_spec)
  then have "k \<noteq> MultipleErrors"
    by (auto simp: spec_code_table_def)
  with Some km show ?thesis
    by (auto simp: exception_def BroadlinkException_init_two)
qed

theorem exception_unknown_code_witness:
  "(5 :: int) \<notin> dom BROADLINK_EXCEPTIONS
   \<and> exception 5 = Exc UnknownError [PInt 5, PStr ''Unknown error''] (PInt 5) ''Unknown error'' []"
proof -
  have h: "(5 :: int) \<notin> dom BROADLINK_EXCEPTIONS"
    by (simp add: BROADLINK_EXCEPTIONS_def)
  with exception_unknown_code [of 5] show ?thesis
    by simp
qed

section \<open>The guard\<close>

text \<open>
  C3. On a buffer of two bytes \<open>check_error\<close> reads a signed 16-bit integer (the
  value \<open>sint\<close> of the 16-bit word made of the two bytes, between -32768 and 32767);
  it returns normally exactly when that integer is zero, and for every other value it
  raises exactly what \<open>exception\<close> returns for it.
\<close>

theorem check_error_decodes_signed16:
  "\<exists>code. struct_unpack_h order [b0, b1] = Inr code
      \<and> code = (case order of LittleEndian \<Rightarrow> sint (word_cat b1 b0 :: 16 word)
                              | BigEndian \<Rightarrow> sint (word_cat b0 b1 :: 16 word))
      \<and> - 32768 \<le> code \<and> code < 32768
      \<and> (check_error order [b0, b1] = Inr ()) = (code = 0)
      \<and> (code \<noteq> 0 \<longrightarrow> check_error order [b0, b1] = Inl (Raised (exception code)))"
proof (cases order)
  case LittleEndian
  then show ?thesis
    using signed16_range [of b1 b0]
    by (simp add: struct_unpack_h_two check_error_def signed16_sint)
next
  case BigEndian
  then show ?thesis
    using signed16_range [of b0 b1]
    by (simp add: struct_unpack_h_two check_error_def signed16_sint)
qed

theorem check_error_decodes_signed16_witness:
  "check_error LittleEndian [0xF9, 0xFF] = Inl (Raised (exception (- 7)))
   \<and> check_error BigEndian [0xFF, 0xF9] = Inl (Raised (exception (- 7)))
   \<and> check_error LittleEndian [0, 0] = Inr ()
   \<and> check_error BigEndian [0, 0] = Inr ()"
proof -
  have l: "struct_unpack_h LittleEndian [0xF9, 0xFF] = Inr (- 7)"
    by (simp add: struct_unpack_h_two signed16_def)
  have b: "struct_unpack_h BigEndian [0xFF, 0xF9] = Inr (- 7)"
    by (simp add: struct_unpack_h_two signed16_def)
  have z: "struct_unpack_h LittleEndian [0, 0] = Inr 0" "struct_unpack_h BigEndian [0, 0] = Inr 0"
    by (simp_all add: struct_unpack_h_two signed16_def)
  from l check_error_decodes_signed16 [of LittleEndian "0xF9" "0xFF"]
  have "check_error LittleEndian [0xF9, 0xFF] = Inl (Raised (exception (- 7)))"
    by auto
  moreover from b check_error_decodes_signed16 [of BigEndian "0xFF" "0xF9"]
  have "check_error BigEndian [0xFF, 0xF9] = Inl (Raised (exception (- 7)))"
    by auto
  moreover from z check_error_decodes_signed16 [of LittleEndian 0 0]
  have "check_error LittleEndian [0, 0] = Inr ()"
    by auto
  moreover from z check_error_decodes_signed16 [of BigEndian 0 0]
  have "check_error BigEndian [0, 0] = Inr ()"
    by auto
  ultimately show ?thesis
    by simp
qed

text \<open>
  C4. The status field of the device is little-endian, and the bytes FD FF are its
  encoding of -3, for which \<open>DeviceOfflineError\<close> with the message
  \<open>The device is offline\<close> is due. The format \<^verbatim>\<open>"h"\<close> has no byte-order
  character (\<^verbatim>\<open>"<h"\<close> would fix little-endian), so \<open>check_error\<close> reads the
  field in the byte order of the host. On a little-endian host the bytes FD FF raise
  that error; on a big-endian host the same bytes are read as -513, which is not in the
  table, and \<open>UnknownError\<close> with code -513 is raised instead.
\<close>

theorem check_error_big_endian_host:
  "check_error BigEndian [0xFD, 0xFF] =
     Inl (Raised (Exc UnknownError [PInt (- 513), PStr ''Unknown error''] (PInt (- 513))
                    ''Unknown error'' []))
   \<and> check_error BigEndian [0xFD, 0xFF] \<noteq>
     Inl (Raised (Exc DeviceOfflineError [PInt (- 3), PStr ''The device is offline'']
                    (PInt (- 3)) ''The device is offline'' []))
   \<and> check_error LittleEndian [0xFD, 0xFF] =
     Inl (Raised (Exc DeviceOfflineError [PInt (- 3), PStr ''The device is offline'']
                    (PInt (- 3)) ''The device is offline'' []))"
  by (simp add: check_error_def struct_unpack_h_two signed16_def exception_def
      BROADLINK_EXCEPTIONS_def BroadlinkException_init_two)

text \<open>
  C8. On a buffer whose length is not two \<open>check_error\<close> raises \<open>StructError\<close>,
  which is none of the errors \<open>exception\<close> builds; on a buffer of two bytes it never
  raises \<open>StructError\<close>: it returns normally or raises \<open>exception code\<close> for a
  non-zero code.
\<close>

theorem check_error_buffer_length:
  "(length buf \<noteq> 2 \<longrightarrow>
      check_error order buf = Inl StructError
      \<and> (\<forall>e. check_error order buf \<noteq> Inl (Raised e)))
   \<and> (length buf = 2 \<longrightarrow>
      check_error order buf \<noteq> Inl StructError
      \<and> (check_error order buf = Inr ()
          \<or> (\<exists>code. code \<noteq> 0 \<and> check_error order buf = Inl (Raised (exception code)))))"
proof (cases "length buf = 2")
  case True
  then obtain b0 b1 where "buf = [b0, b1]"
    by (auto simp: length_Suc_conv numeral_2_eq_2)
  then show ?thesis
    by (auto simp: check_error_def struct_unpack_h_two)
next
  case False
  then show ?thesis
    by (simp add: check_error_def struct_unpack_h_other)
qed

theorem check_error_buffer_length_witness:
  "check_error LittleEndian [0xFD] = Inl StructError
   \<and> check_error LittleEndian [0xFD, 0xFF, 0x00] = Inl StructError
   \<and> check_error LittleEndian [] = Inl StructError
   \<and> check_error LittleEndian [0xFD, 0xFF] \<noteq> Inl StructError"
  using check_error_buffer_length [of "[0xFD]" LittleEndian]
    check_error_buffer_length [of "[0xFD, 0xFF, 0x00]" LittleEndian]
    check_error_buffer_length [of "[]" LittleEndian]
    check_error_buffer_length [of "[0xFD, 0xFF]" LittleEndian]
  by simp

section \<open>Construction, display, equality\<close>

text \<open>
  C10. A \<open>BroadlinkException\<close> built from no argument has no code (\<open>errno\<close> is
  \<open>None\<close>) and the empty message, and its \<open>str\<close> is the empty string. Built from
  three or more arguments, its code is the first and its message is the \<open>str\<close> of the
  others joined with a colon and a space.
\<close>

theorem BroadlinkException_init_arity:
  "BroadlinkException_init BroadlinkException [] = Exc BroadlinkException [] PNone '''' []
   \<and> exc_str (BroadlinkException_init BroadlinkException []) = ''''
   \<and> (length as \<ge> 3 \<longrightarrow>
        errno (BroadlinkException_init k as) = hd as
        \<and> strerror (BroadlinkException_init k as) = join '': '' (map py_str (tl as)))"
  by (simp add: BroadlinkException_init_def exc_str_def)

theorem BroadlinkException_init_arity_witness:
  "strerror (BroadlinkException_init BroadlinkException [PInt 7, PStr ''a'', PInt 2, PNone])
     = ''a: 2: None''
   \<and> errno (BroadlinkException_init BroadlinkException [PInt 7, PStr ''a'', PInt 2, PNone])
     = PInt 7"
  using BroadlinkException_init_arity
    [of "[PInt 7, PStr ''a'', PInt 2, PNone]" BroadlinkException]
  by (simp add: str_int_def str_nat_2)

text \<open>
  C6. For every error the constructors build, \<open>str\<close> is
  \<open>[Errno code] message\<close> when \<open>errno\<close> is an integer and the message alone when
  \<open>errno\<close> is \<open>None\<close>. (\<open>MultipleErrors\<close> never has a code.)
\<close>

theorem exc_str_display:
  "(e = BroadlinkException_init k as \<and> k \<noteq> MultipleErrors) \<or> e = MultipleErrors_init es \<Longrightarrow>
     (errno e = PInt c \<longrightarrow> exc_str e = ''[Errno '' @ str_int c @ ''] '' @ strerror e)
     \<and> (errno e = PNone \<longrightarrow> exc_str e = strerror e)"
proof (elim disjE conjE)
  assume "e = BroadlinkException_init k as" "k \<noteq> MultipleErrors"
  then show ?thesis
    by (simp add: exc_str_def BroadlinkException_init_etype)
next
  assume "e = MultipleErrors_init es"
  then show ?thesis
    by (simp add: exc_str_def MultipleErrors_init_attrs)
qed

theorem exc_str_display_witness:
  "exc_str (BroadlinkException_init UnknownError [PInt 5, PStr ''Unknown error''])
     = ''[Errno 5] Unknown error''
   \<and> exc_str (BroadlinkException_init BroadlinkException [PStr ''boom'']) = ''boom''
   \<and> exc_str (MultipleErrors_init []) = ''Multiple errors occurred: Counter()''"
proof -
  have s5: "str_int 5 = ''5''"
    by (simp add: str_int_def str_nat.simps digit_char_def)
  have "exc_str (BroadlinkException_init UnknownError [PInt 5, PStr ''Unknown error''])
     = ''[Errno 5] Unknown error''"
    using exc_str_display [of "BroadlinkException_init UnknownError [PInt 5, PStr ''Unknown error'']"
        UnknownError "[PInt 5, PStr ''Unknown error'']" "[]" 5]
    by (simp add: BroadlinkException_init_two s5)
  moreover
  have "exc_str (BroadlinkException_init BroadlinkException [PStr ''boom'']) = ''boom''"
    using exc_str_display [of "BroadlinkException_init BroadlinkException [PStr ''boom'']"
        BroadlinkException "[PStr ''boom'']" "[]" 0]
    by (simp add: BroadlinkException_init_def)
  moreover
  have "exc_str (MultipleErrors_init []) = ''Multiple errors occurred: Counter()''"
    using exc_str_display [of "MultipleErrors_init []" BroadlinkException "[]" "[]" 0]
    by (simp add: MultipleErrors_init_attrs Counter_def counter_repr_def)
  ultimately show ?thesis
    by simp
qed

text \<open>
  C5, as the specification has it: two errors are equal exactly when they are of the
  same class and were built from the same arguments. Two \<open>MultipleErrors\<close> built from
  different sequences are equal when the sequences give the same counts in the same order
  of first occurrence.
\<close>

theorem MultipleErrors_eq_different_sequences:
  "exc_eq (MultipleErrors_init [ [exception (- 1), exception (- 1), exception (- 3)] ])
          (MultipleErrors_init [ [exception (- 1), exception (- 3), exception (- 1)] ])
   \<and> [ [exception (- 1), exception (- 1), exception (- 3)] ]
       \<noteq> [ [exception (- 1), exception (- 3), exception (- 1)] ]
   \<and> errors (MultipleErrors_init [ [exception (- 1), exception (- 1), exception (- 3)] ])
       \<noteq> errors (MultipleErrors_init [ [exception (- 1), exception (- 3), exception (- 1)] ])"
  using MultipleErrors_aab_aba [OF exception_minus_1_3_differ(1)]
  by (simp add: MultipleErrors_init_attrs exception_minus_1 exception_minus_3)

text \<open>
  C5, amended. Two errors built by \<open>BroadlinkException.__init__\<close> (every class but
  \<open>MultipleErrors\<close>) are equal exactly when they are of the same class and were built
  from the same arguments. Errors of different classes, \<open>MultipleErrors\<close> included,
  are never equal, and equal errors have equal hashes.
\<close>

theorem exc_eq_kind_and_args:
  "exc_eq (BroadlinkException_init k1 a1) (BroadlinkException_init k2 a2) = (k1 = k2 \<and> a1 = a2)
   \<and> (etype x \<noteq> etype y \<longrightarrow> \<not> exc_eq x y)
   \<and> (exc_eq x y \<longrightarrow> exc_hash H x = exc_hash H y)"
  by (simp add: exc_eq_def exc_hash_def BroadlinkException_init_etype BroadlinkException_init_args)

theorem exc_eq_kind_and_args_witness:
  "\<not> exc_eq (BroadlinkException_init SendError [PInt (- 8), PStr ''Send error''])
            (BroadlinkException_init WriteError [PInt (- 8), PStr ''Send error''])
   \<and> exc_eq (exception (- 1)) (exception (- 1))
   \<and> exc_hash (\<lambda>(k, as). int (length as)) (exception (- 1))
       = exc_hash (\<lambda>(k, as). int (length as)) (exception (- 1))"
  using exc_eq_kind_and_args [of SendError "[PInt (- 8), PStr ''Send error'']"
      WriteError "[PInt (- 8), PStr ''Send error'']"
      "exception (- 1)" "exception (- 1)" "\<lambda>(k, as). int (length as)"]
  by (simp add: exc_eq_refl)

section \<open>MultipleErrors: the summary and equality\<close>

text \<open>
  C7, as the specification has it: the message of
  \<open>MultipleErrors([errA, errA, errB])\<close> has the form
  \<open>Multiple errors occurred: {ErrorA: 2, ErrorB: 1}\<close>. The message is the repr of the
  \<open>Counter\<close>, which wraps the braces in \<open>Counter(...)\<close>: it is not of that form,
  whether an error is written there by its repr, by its class name or by its \<open>str\<close>.
\<close>

theorem MultipleErrors_summary_not_bare_dict:
  "strerror (MultipleErrors_init [ [exception (- 1), exception (- 1), exception (- 3)] ])
     \<noteq> ''Multiple errors occurred: {'' @ exc_repr (exception (- 1)) @ '': 2, ''
          @ exc_repr (exception (- 3)) @ '': 1}''
   \<and> strerror (MultipleErrors_init [ [exception (- 1), exception (- 1), exception (- 3)] ])
     \<noteq> ''Multiple errors occurred: {'' @ kind_name (etype (exception (- 1))) @ '': 2, ''
          @ kind_name (etype (exception (- 3))) @ '': 1}''
   \<and> strerror (MultipleErrors_init [ [exception (- 1), exception (- 1), exception (- 3)] ])
     \<noteq> ''Multiple errors occurred: {'' @ exc_str (exception (- 1)) @ '': 2, ''
          @ exc_str (exception (- 3)) @ '': 1}''"
proof -
  have "Counter [exception (- 1), exception (- 1), exception (- 3)]
      = [(exception (- 1), 2), (exception (- 3), 1)]"
    by (rule Counter_aab) (rule exception_minus_1_3_differ(1))
  then have "strerror (MultipleErrors_init [ [exception (- 1), exception (- 1), exception (- 3)] ])
      = ''Multiple errors occurred: Counter({'' @ exc_repr (exception (- 1)) @ '': 2, ''
          @ exc_repr (exception (- 3)) @ '': 1})''"
    by (simp add: MultipleErrors_init_attrs counter_repr_aab)
  then show ?thesis
    by simp
qed

text \<open>
  C7, amended. For two errors that are not equal, \<open>MultipleErrors([errA, errA, errB])\<close>
  counts \<open>errA\<close> twice and \<open>errB\<close> once, its message (and its \<open>str\<close>) is
  \<open>Multiple errors occurred: Counter({A: 2, B: 1})\<close> where \<open>A\<close> and \<open>B\<close> are the
  reprs of the two errors, and its attribute \<open>errors\<close> is the sequence of three
  errors, in its order.
\<close>

theorem MultipleErrors_summary_counts:
  "\<not> exc_eq a b \<Longrightarrow>
     Counter [a, a, b] = [(a, 2), (b, 1)]
     \<and> strerror (MultipleErrors_init [ [a, a, b] ])
         = ''Multiple errors occurred: Counter({'' @ exc_repr a @ '': 2, '' @ exc_repr b @ '': 1})''
     \<and> exc_str (MultipleErrors_init [ [a, a, b] ]) = strerror (MultipleErrors_init [ [a, a, b] ])
     \<and> errors (MultipleErrors_init [ [a, a, b] ]) = [a, a, b]"
proof -
  assume ab: "\<not> exc_eq a b"
  then have c: "Counter [a, a, b] = [(a, 2), (b, 1)]"
    by (rule Counter_aab)
  then have "strerror (MultipleErrors_init [ [a, a, b] ])
      = ''Multiple errors occurred: Counter({'' @ exc_repr a @ '': 2, '' @ exc_repr b @ '': 1})''"
    by (simp add: MultipleErrors_init_attrs counter_repr_aab)
  moreover have "exc_str (MultipleErrors_init [ [a, a, b] ]) = strerror (MultipleErrors_init [ [a, a, b] ])"
    by (simp add: exc_str_def MultipleErrors_init_attrs)
  moreover have "errors (MultipleErrors_init [ [a, a, b] ]) = [a, a, b]"
    by (simp add: MultipleErrors_init_attrs)
  ultimately show ?thesis
    using c by simp
qed

theorem MultipleErrors_summary_counts_witness:
  "\<not> exc_eq (exception (- 1)) (exception (- 3))
   \<and> strerror (MultipleErrors_init [ [exception (- 1), exception (- 1), exception (- 3)] ])
       = ''Multiple errors occurred: Counter({AuthenticationError(-1, '' @ [CHR 0x27]
           @ ''Authentication failed'' @ [CHR 0x27] @ ''): 2, DeviceOfflineError(-3, ''
           @ [CHR 0x27] @ ''The device is offline'' @ [CHR 0x27] @ ''): 1})''
   \<and> errors (MultipleErrors_init [ [exception (- 1), exception (- 1), exception (- 3)] ])
       = [exception (- 1), exception (- 1), exception (- 3)]"
  using MultipleErrors_summary_counts [OF exception_minus_1_3_differ(1)]
    exception_minus_1_3_differ(1)
  by (simp add: exc_repr_minus_1 exc_repr_minus_3)

text \<open>
  C9. Two \<open>MultipleErrors\<close> are equal exactly when their messages, the rendered
  counters, are the same string; the sequences in \<open>errors\<close> play no part. So two
  different sequences can give equal errors, and two sequences with the same elements
  in another order give unequal errors when the counters render differently.
\<close>

theorem MultipleErrors_eq_by_summary:
  "exc_eq (MultipleErrors_init as) (MultipleErrors_init bs)
     = (strerror (MultipleErrors_init as) = strerror (MultipleErrors_init bs))
   \<and> args (MultipleErrors_init [xs]) = [PStr (''Multiple errors occurred: '' @ counter_repr (Counter xs))]
   \<and> errors (MultipleErrors_init [xs]) = xs
   \<and> exc_eq (MultipleErrors_init [xs]) (MultipleErrors_init [ys])
       = (counter_repr (Counter xs) = counter_repr (Counter ys))
   \<and> (mset xs = mset ys \<and> counter_repr (Counter xs) \<noteq> counter_repr (Counter ys) \<longrightarrow>
        \<not> exc_eq (MultipleErrors_init [xs]) (MultipleErrors_init [ys]))
   \<and> (\<exists>us vs. us \<noteq> vs \<and> exc_eq (MultipleErrors_init [us]) (MultipleErrors_init [vs]))
   \<and> (\<exists>us vs. mset us = mset vs \<and> \<not> exc_eq (MultipleErrors_init [us]) (MultipleErrors_init [vs]))"
proof (intro conjI)
  show "exc_eq (MultipleErrors_init as) (MultipleErrors_init bs)
     = (strerror (MultipleErrors_init as) = strerror (MultipleErrors_init bs))"
    by (rule MultipleErrors_eq_iff)
  show "args (MultipleErrors_init [xs]) = [PStr (''Multiple errors occurred: '' @ counter_repr (Counter xs))]"
    by (simp add: MultipleErrors_init_attrs)
  show "errors (MultipleErrors_init [xs]) = xs"
    by (simp add: MultipleErrors_init_attrs)
  show e: "exc_eq (MultipleErrors_init [xs]) (MultipleErrors_init [ys])
       = (counter_repr (Counter xs) = counter_repr (Counter ys))"
    by (simp add: MultipleErrors_init_attrs exc_eq_def)
  show "mset xs = mset ys \<and> counter_repr (Counter xs) \<noteq> counter_repr (Counter ys) \<longrightarrow>
        \<not> exc_eq (MultipleErrors_init [xs]) (MultipleErrors_init [ys])"
    using e by simp
  show "\<exists>us vs. us \<noteq> vs \<and> exc_eq (MultipleErrors_init [us]) (MultipleErrors_init [vs])"
  proof (intro exI conjI)
    show "[exception (- 1), exception (- 1), exception (- 3)]
        \<noteq> [exception (- 1), exception (- 3), exception (- 1)]"
      by (simp add: exception_minus_1 exception_minus_3)
    show "exc_eq (MultipleErrors_init [ [exception (- 1), exception (- 1), exception (- 3)] ])
            (MultipleErrors_init [ [exception (- 1), exception (- 3), exception (- 1)] ])"
      by (rule MultipleErrors_aab_aba) (rule exception_minus_1_3_differ(1))
  qed
  show "\<exists>us vs. mset us = mset vs \<and> \<not> exc_eq (MultipleErrors_init [us]) (MultipleErrors_init [vs])"
  proof (intro exI conjI)
    show "mset [exception (- 1), exception (- 3)] = mset [exception (- 3), exception (- 1)]"
      by (rule mset_swap2)
    show "\<not> exc_eq (MultipleErrors_init [ [exception (- 1), exception (- 3)] ])
            (MultipleErrors_init [ [exception (- 3), exception (- 1)] ])"
      by (rule MultipleErrors_ab_ba)
  qed
qed

theorem MultipleErrors_eq_by_summary_witness:
  "exc_eq (MultipleErrors_init [ [exception (- 1), exception (- 1), exception (- 3)] ])
          (MultipleErrors_init [ [exception (- 1), exception (- 3), exception (- 1)] ])
   \<and> mset [exception (- 1), exception (- 3)] = mset [exception (- 3), exception (- 1)]
   \<and> counter_repr (Counter [exception (- 1), exception (- 3)])
       \<noteq> counter_repr (Counter [exception (- 3), exception (- 1)])
   \<and> \<not> exc_eq (MultipleErrors_init [ [exception (- 1), exception (- 3)] ])
              (MultipleErrors_init [ [exception (- 3), exception (- 1)] ])"
proof -
  have c1: "Counter [exception (- 1), exception (- 1), exception (- 3)]
      = [(exception (- 1), 2), (exception (- 3), 1)]"
    by (rule Counter_aab) (rule exception_minus_1_3_differ(1))
  have c2: "Counter [exception (- 1), exception (- 3), exception (- 1)]
      = [(exception (- 1), 2), (exception (- 3), 1)]"
    by (rule Counter_aba) (rule exception_minus_1_3_differ(1))
  have c13: "Counter [exception (- 1), exception (- 3)] = [(exception (- 1), 1), (exception (- 3), 1)]"
    by (rule Counter_ab) (rule exception_minus_1_3_differ(1))
  have c31: "Counter [exception (- 3), exception (- 1)] = [(exception (- 3), 1), (exception (- 1), 1)]"
    by (rule Counter_ab) (rule exception_minus_1_3_differ(2))
  have d: "counter_repr (Counter [exception (- 1), exception (- 3)])
       \<noteq> counter_repr (Counter [exception (- 3), exception (- 1)])"
    unfolding c13 c31 by (simp add: counter_repr_ab exception_minus_1 exception_minus_3)
  have m: "mset [exception (- 1), exception (- 3)] = mset [exception (- 3), exception (- 1)]"
    by (rule mset_swap2)
  note eq = MultipleErrors_eq_by_summary [of "[]" "[]"
      "[exception (- 1), exception (- 1), exception (- 3)]"
      "[exception (- 1), exception (- 3), exception (- 1)]",
      THEN conjunct2, THEN conjunct2, THEN conjunct2, THEN conjunct1]
  note neq = MultipleErrors_eq_by_summary [of "[]" "[]"
      "[exception (- 1), exception (- 3)]" "[exception (- 3), exception (- 1)]",
      THEN conjunct2, THEN conjunct2, THEN conjunct2, THEN conjunct2, THEN conjunct1]
  have "exc_eq (MultipleErrors_init [ [exception (- 1), exception (- 1), exception (- 3)] ])
          (MultipleErrors_init [ [exception (- 1), exception (- 3), exception (- 1)] ])"
    unfolding eq c1 c2 by (rule refl)
  moreover
  have "\<not> exc_eq (MultipleErrors_init [ [exception (- 1), exception (- 3)] ])
              (MultipleErrors_init [ [exception (- 3), exception (- 1)] ])"
    by (rule neq [THEN mp, OF conjI, OF m d])
  ultimately show ?thesis
    using d m by (intro conjI)
qed


end
